theory Spec2Isabelle
  imports Main "HOL-Library.AList"
begin

section \<open>The language syntax (lp/syntax.py)\<close>

subsection \<open>Operators and their class attributes\<close>

text \<open>
  The concrete operator classes. \<open>Negation\<close> derives from \<open>UnaryOperator\<close>, the other
  four from \<open>BinaryOperator\<close>; both bases derive from \<open>Operator\<close>.
\<close>

datatype unary_operator = Negation

datatype binary_operator = Conjunction | Disjunction | Implication | BiImplication

datatype operator = Unary unary_operator | Binary binary_operator

text \<open>\<open>Operator.Associativity\<close>: two integer constants.\<close>

definition LEFT :: int where
  "LEFT = 1"

definition RIGHT :: int where
  "RIGHT = 0"

fun SYMBOL :: "operator \<Rightarrow> string" where
  "SYMBOL (Unary Negation) = ''-''"
| "SYMBOL (Binary Conjunction) = ''&''"
| "SYMBOL (Binary Disjunction) = ''|''"
| "SYMBOL (Binary Implication) = ''->''"
| "SYMBOL (Binary BiImplication) = ''<->''"

text \<open>The attribute is spelled \<open>precendence\<close> in the source.\<close>

fun precendence :: "operator \<Rightarrow> int" where
  "precendence (Unary Negation) = 6"
| "precendence (Binary Conjunction) = 5"
| "precendence (Binary Disjunction) = 4"
| "precendence (Binary Implication) = 3"
| "precendence (Binary BiImplication) = 2"

fun associativity :: "operator \<Rightarrow> int" where
  "associativity (Unary Negation) = RIGHT"
| "associativity (Binary Conjunction) = LEFT"
| "associativity (Binary Disjunction) = LEFT"
| "associativity (Binary Implication) = LEFT"
| "associativity (Binary BiImplication) = LEFT"

text \<open>
  The number of arguments an operator owns: \<open>UnaryOperator.set_arg(arg)\<close> stores one,
  \<open>BinaryOperator.set_args(arg1, arg2)\<close> stores two.
\<close>

fun arity :: "operator \<Rightarrow> nat" where
  "arity (Unary _) = 1"
| "arity (Binary _) = 2"

subsection \<open>Expressions\<close>

text \<open>
  An expression is a \<open>PropositionalSymbol\<close> carrying its \<open>value\<close> (the name), or an
  operator object whose arguments have been set (\<open>arg1\<close>, and \<open>arg2\<close> for a binary
  operator). The \<open>value\<close> an operator object was created with is read by none of the
  methods below and is left out.
\<close>

datatype formula =
    PropositionalSymbol string
  | UnaryOperator unary_operator formula
  | BinaryOperator binary_operator formula formula

text \<open>\<open>is_a(PropositionalSymbol)\<close>.\<close>

fun is_a_PropositionalSymbol :: "formula \<Rightarrow> bool" where
  "is_a_PropositionalSymbol (PropositionalSymbol _) = True"
| "is_a_PropositionalSymbol _ = False"

text \<open>
  The operator class of an object: \<open>Some\<close> exactly when \<open>is_a(Operator)\<close> holds, and then
  the class whose attributes (\<open>precendence\<close>, \<open>SYMBOL\<close>) the object has.
\<close>

fun operator_of :: "formula \<Rightarrow> operator option" where
  "operator_of (PropositionalSymbol _) = None"
| "operator_of (UnaryOperator u _) = Some (Unary u)"
| "operator_of (BinaryOperator b _ _) = Some (Binary b)"

fun subformulas :: "formula \<Rightarrow> formula list" where
  "subformulas (PropositionalSymbol v) = [PropositionalSymbol v]"
| "subformulas (UnaryOperator u arg1) =
     [UnaryOperator u arg1] @ subformulas arg1"
| "subformulas (BinaryOperator b arg1 arg2) =
     [BinaryOperator b arg1 arg2] @ subformulas arg1 @ subformulas arg2"

text \<open>
  The test of \<open>BinaryOperator.str_representation\<close> under which an argument needs no
  parentheses: \<open>arg.is_a(PropositionalSymbol) or (arg.is_a(Operator) and
  self.precendence <= arg.precendence)\<close>.
\<close>

definition no_parenthesis :: "operator \<Rightarrow> formula \<Rightarrow> bool" where
  "no_parenthesis self arg =
     (is_a_PropositionalSymbol arg \<or>
      (case operator_of arg of
         None \<Rightarrow> False
       | Some c \<Rightarrow> precendence self \<le> precendence c))"

fun str_representation :: "formula \<Rightarrow> string" where
  "str_representation (PropositionalSymbol v) = v"
| "str_representation (UnaryOperator u arg1) =
     (if is_a_PropositionalSymbol arg1
      then SYMBOL (Unary u) @ str_representation arg1
      else SYMBOL (Unary u) @ ''('' @ str_representation arg1 @ '')'')"
| "str_representation (BinaryOperator b arg1 arg2) =
     (let arg1_repr =
            (if no_parenthesis (Binary b) arg1
             then str_representation arg1
             else ''('' @ str_representation arg1 @ '')'');
          arg2_repr =
            (if no_parenthesis (Binary b) arg2
             then str_representation arg2
             else ''('' @ str_representation arg2 @ '')'')
      in arg1_repr @ SYMBOL (Binary b) @ arg2_repr)"

subsection \<open>The rendering rule and the tree measures, as the specification words them\<close>

text \<open>
  The specification's rule for a child: bare when the child is a variable, or an operator
  whose precedence is greater than or equal to the parent's; in parentheses otherwise.
\<close>

definition spec_bare :: "operator \<Rightarrow> formula \<Rightarrow> bool" where
  "spec_bare parent child =
     (case child of
        PropositionalSymbol _ \<Rightarrow> True
      | UnaryOperator u _ \<Rightarrow> precendence (Unary u) \<ge> precendence parent
      | BinaryOperator b _ _ \<Rightarrow> precendence (Binary b) \<ge> precendence parent)"

definition spec_child :: "operator \<Rightarrow> formula \<Rightarrow> string \<Rightarrow> string" where
  "spec_child parent child txt =
     (if spec_bare parent child then txt else ''('' @ txt @ '')'')"

text \<open>The rendering that applies this rule at every operator node, unary or binary.\<close>

fun spec_render :: "formula \<Rightarrow> string" where
  "spec_render (PropositionalSymbol v) = v"
| "spec_render (UnaryOperator u x) =
     SYMBOL (Unary u) @ spec_child (Unary u) x (spec_render x)"
| "spec_render (BinaryOperator b x y) =
     spec_child (Binary b) x (spec_render x) @ SYMBOL (Binary b)
       @ spec_child (Binary b) y (spec_render y)"

text \<open>The arguments of a node, first to last, and the number of nodes of a tree.\<close>

fun args :: "formula \<Rightarrow> formula list" where
  "args (PropositionalSymbol _) = []"
| "args (UnaryOperator _ x) = [x]"
| "args (BinaryOperator _ x y) = [x, y]"

fun nodes :: "formula \<Rightarrow> nat" where
  "nodes (PropositionalSymbol _) = 1"
| "nodes (UnaryOperator _ x) = 1 + nodes x"
| "nodes (BinaryOperator _ x y) = 1 + nodes x + nodes y"

subsection \<open>Recognizers: \<open>Symbol.evaluate\<close>\<close>

text \<open>
  \<open>Symbol.evaluate(cls, symbol)\<close> compiles \<open>'^%s$' % cls.pattern\<close> and returns
  \<open>regexp.match(symbol)\<close>. The patterns of the source are kept as syntax trees of the
  constructs they use, and matched the way Python's \<open>re\<close> matches them: by backtracking
  from position 0, a greedy star trying the longest repetition first.
\<close>

datatype class_item = Lit char | Range char char

datatype regex =
    CharClass "class_item list"
  | Concat regex regex
  | Star regex
  | Repeat regex nat
  | Group regex
  | Caret
  | Dollar

text \<open>
  A range of a character class compares code points. The classes of the source's
  patterns hold ASCII characters only, so a character outside ASCII is in none of them.
\<close>

fun in_item :: "char \<Rightarrow> class_item \<Rightarrow> bool" where
  "in_item c (Lit d) = (c = d)"
| "in_item c (Range lo hi) =
     ((of_char lo :: nat) \<le> of_char c \<and> (of_char c :: nat) \<le> of_char hi)"

text \<open>
  A position is the number of characters consumed and the rest of the subject string.
  \<open>run r p\<close> lists the positions at which a match of \<open>r\<close> started at \<open>p\<close> can end, in
  the order in which backtracking tries them. An iteration of a star that consumes
  nothing is not repeated. Without the MULTILINE flag, \<open>^\<close> holds at position 0 only,
  and \<open>$\<close> holds at the end of the string and just before a newline that is the last
  character of the string.
\<close>

type_synonym position = "nat \<times> string"

function (sequential) run :: "regex \<Rightarrow> position \<Rightarrow> position list" where
  "run (CharClass items) (n, []) = []"
| "run (CharClass items) (n, c # rest) =
     (if list_ex (in_item c) items then [(Suc n, rest)] else [])"
| "run (Concat r1 r2) p = concat (map (run r2) (run r1 p))"
| "run (Star r) p =
     concat (map (run (Star r))
               (filter (\<lambda>q. length (snd q) < length (snd p)) (run r p))) @ [p]"
| "run (Repeat r 0) p = [p]"
| "run (Repeat r (Suc k)) p = concat (map (run (Repeat r k)) (run r p))"
| "run (Group r) p = run r p"
| "run Caret (n, s) = (if n = 0 then [(n, s)] else [])"
| "run Dollar (n, s) = (if s = [] \<or> s = [CHR 0x0A] then [(n, s)] else [])"
  by pat_completeness auto
termination
  by (relation "inv_image (less_than <*lex*> less_than <*lex*> less_than)
        (\<lambda>(r, p). (size r, (case r of Repeat _ k \<Rightarrow> k | _ \<Rightarrow> 0), length (snd p)))")
     auto

text \<open>
  \<open>regexp.match(s)\<close>: \<open>None\<close> when there is no match at position 0, else the match
  object, here the text it matched (\<open>group(0)\<close>).
\<close>

definition re_match :: "regex \<Rightarrow> string \<Rightarrow> string option" where
  "re_match r s =
     (case run r (0, s) of
        [] \<Rightarrow> None
      | (n, _) # _ \<Rightarrow> Some (take n s))"

definition evaluate :: "regex \<Rightarrow> string \<Rightarrow> string option" where
  "evaluate cls_pattern symbol = re_match (Concat Caret (Concat cls_pattern Dollar)) symbol"

text \<open>\<open>Symbol.pattern = '([a-z0-9&\-\|><\(\)]*)'\<close>.\<close>

definition Symbol_pattern :: regex where
  "Symbol_pattern =
     Group (Star (CharClass
       [Range CHR ''a'' CHR ''z'', Range CHR ''0'' CHR ''9'', Lit CHR ''&'', Lit CHR ''-'',
        Lit CHR ''|'', Lit CHR ''>'', Lit CHR ''<'', Lit CHR ''('', Lit CHR '')'']))"

text \<open>\<open>PropositionalSymbol.pattern = '([a-z]{1}[0-9]*)'\<close>.\<close>

definition PropositionalSymbol_pattern :: regex where
  "PropositionalSymbol_pattern =
     Group (Concat (Repeat (CharClass [Range CHR ''a'' CHR ''z'']) 1)
                   (Star (CharClass [Range CHR ''0'' CHR ''9''])))"

text \<open>
  The tokens the specification describes: one lowercase ASCII letter followed by zero or
  more ASCII digits.
\<close>

definition lowercase_letter :: "char \<Rightarrow> bool" where
  "lowercase_letter c = (c \<in> set ''abcdefghijklmnopqrstuvwxyz'')"

definition ascii_digit :: "char \<Rightarrow> bool" where
  "ascii_digit c = (c \<in> set ''0123456789'')"

definition variable_token :: "string \<Rightarrow> bool" where
  "variable_token s =
     (case s of
        [] \<Rightarrow> False
      | c # ds \<Rightarrow> lowercase_letter c \<and> list_all ascii_digit ds)"

section \<open>The operations (operations.py)\<close>

subsection \<open>The interpreter module\<close>

text \<open>
  \<open>operations.py\<close> imports \<open>Interpreter\<close>, \<open>TruthTable\<close> and \<open>SetTruthTable\<close> from
  \<open>lp.interpreter\<close>. The operations are parameterised by that module: a record of the
  calls they make. \<open>'t\<close> is a \<open>TruthTable\<close> object, \<open>'s\<close> a \<open>SetTruthTable\<close> object. Every
  call may raise; \<open>None\<close> is the exception, which the operations let through.

  A dictionary is the list of its items in iteration order. A row of
  \<open>get_formula_valuations()\<close> is indexed by the operations at \<open>[1]\<close>, the truth value of
  the formula: a row is a pair whose second component is that boolean. The values of a
  model dictionary are never read by the operations.
\<close>

type_synonym ('k, 'v) dict = "('k \<times> 'v) list"

record ('t, 's, 'a, 'm) interpreter =
  parse_expression :: "string \<Rightarrow> formula option"
  TruthTable :: "string \<Rightarrow> 't option"
  get_formula_valuations :: "'t \<Rightarrow> (nat, 'a \<times> bool) dict option"
  TruthTable_str_representation :: "'t \<Rightarrow> string option"
  SetTruthTable :: "string list \<Rightarrow> 's option"
  get_formula_models :: "'s \<Rightarrow> string \<Rightarrow> (nat, 'm) dict option"
  get_formulas_set_models :: "'s \<Rightarrow> (string, formula) dict \<Rightarrow> (nat, 'm) dict option"
  SetTruthTable_str_representation :: "'s \<Rightarrow> string option"

text \<open>\<open>'[%s, [%s]]' % (verdict, truth_table.str_representation())\<close>.\<close>

definition format_result :: "string \<Rightarrow> string \<Rightarrow> string" where
  "format_result verdict table = ''['' @ verdict @ '', ['' @ table @ '']]''"

subsection \<open>\<open>SemanticStatus\<close>\<close>

definition check_status :: "bool list \<Rightarrow> string" where
  "check_status formula_values =
     (let tautology = (True \<in> set formula_values \<and> False \<notin> set formula_values);
          contradiction = (False \<in> set formula_values \<and> True \<notin> set formula_values)
      in if tautology then ''TAUTOLOGIA''
         else if contradiction then ''CONTRADICAO''
         else ''CONTINGENCIA'')"

definition SemanticStatus_perform ::
  "('t, 's, 'a, 'm) interpreter \<Rightarrow> string \<Rightarrow> string option" where
  "SemanticStatus_perform I formula =
     (case TruthTable I formula of
        None \<Rightarrow> None
      | Some truth_table \<Rightarrow>
     (case get_formula_valuations I truth_table of
        None \<Rightarrow> None
      | Some valuations \<Rightarrow>
     (let formula_values = map (\<lambda>(line, valuation). snd valuation) valuations;
          status = check_status formula_values
      in case TruthTable_str_representation I truth_table of
           None \<Rightarrow> None
         | Some table \<Rightarrow> Some (format_result status table))))"

subsection \<open>\<open>SemanticEquivalence\<close>\<close>

text \<open>
  The loop \<open>for valuation_index, valuation in models.items(): if valuation_index not in
  other: flag = False; break\<close>, as the value of the flag after the loop.
\<close>

fun models_in :: "('k, 'v) dict \<Rightarrow> ('k, 'w) dict \<Rightarrow> bool" where
  "models_in [] other = True"
| "models_in ((valuation_index, valuation) # rest) other =
     (if valuation_index \<notin> fst ` set other then False else models_in rest other)"


subsection \<open>\<open>LogicConsequence\<close>\<close>

text \<open>
  The loop of \<open>is_logic_consequence_of_empty_set\<close>: the flag is cleared at the first row
  whose value \<open>valuation[1] is False\<close>.
\<close>

fun no_false_row :: "('k, 'a \<times> bool) dict \<Rightarrow> bool" where
  "no_false_row [] = True"
| "no_false_row ((valuation_index, valuation) # rest) =
     (if snd valuation = False then False else no_false_row rest)"

definition is_logic_consequence_of_empty_set ::
  "('t, 's, 'a, 'm) interpreter \<Rightarrow> string \<Rightarrow> string option" where
  "is_logic_consequence_of_empty_set I formula =
     (case TruthTable I formula of
        None \<Rightarrow> None
      | Some truth_table \<Rightarrow>
     (case get_formula_valuations I truth_table of
        None \<Rightarrow> None
      | Some valuations \<Rightarrow>
     (let logic_consequence = no_false_row valuations;
          consequence = (if logic_consequence then ''SIM'' else ''NAO'')
      in case TruthTable_str_representation I truth_table of
           None \<Rightarrow> None
         | Some table \<Rightarrow> Some (format_result consequence table))))"

text \<open>
  The loop \<open>for f in formulas_set: form = Interpreter.parse_expression(f);
  formulas[form.str_representation()] = form\<close>. Assigning to a key the dictionary
  already has keeps the key's place and replaces its value, as \<open>AList.update\<close> does.
\<close>

fun parse_formulas ::
  "('t, 's, 'a, 'm) interpreter \<Rightarrow> string list \<Rightarrow> (string, formula) dict
     \<Rightarrow> (string, formula) dict option" where
  "parse_formulas I [] formulas = Some formulas"
| "parse_formulas I (f # rest) formulas =
     (case parse_expression I f of
        None \<Rightarrow> None
      | Some form \<Rightarrow>
          parse_formulas I rest (AList.update (str_representation form) form formulas))"

text \<open>
  \<open>LogicConsequence.perform\<close>. Its first test is \<open>'' in formulas_set and
  len(formulas_set) is 1\<close>; the identity test on the small integer is answered by
  CPython as the equality.
\<close>

definition LogicConsequence_perform ::
  "('t, 's, 'a, 'm) interpreter \<Rightarrow> string list \<Rightarrow> string \<Rightarrow> string option" where
  "LogicConsequence_perform I formulas_set formula =
     (if '''' \<in> set formulas_set \<and> length formulas_set = 1
      then is_logic_consequence_of_empty_set I formula
      else
     (case SetTruthTable I (formulas_set @ [formula]) of
        None \<Rightarrow> None
      | Some truth_table \<Rightarrow>
     (case parse_expression I formula of
        None \<Rightarrow> None
      | Some fm \<Rightarrow>
     (case parse_formulas I formulas_set [] of
        None \<Rightarrow> None
      | Some formulas \<Rightarrow>
     (case get_formulas_set_models I truth_table formulas of
        None \<Rightarrow> None
      | Some set_models \<Rightarrow>
     (case get_formula_models I truth_table (str_representation fm) of
        None \<Rightarrow> None
      | Some formula_models \<Rightarrow>
     (let logic_consequence = models_in set_models formula_models;
          consequence = (if logic_consequence then ''SIM'' else ''NAO'')
      in case SetTruthTable_str_representation I truth_table of
           None \<Rightarrow> None
         | Some table \<Rightarrow> Some (format_result consequence table))))))))"

subsection \<open>An interpreter for the variables \<open>p\<close> and \<open>q\<close>\<close>

text \<open>
  A small instance of the interpreter record, at which the theorems about the operations
  are evaluated. It accepts the formulas \<open>p\<close> and \<open>q\<close> only. A \<open>SetTruthTable\<close> has the
  four rows of the valuations of \<open>(p, q)\<close>, numbered from 0 with \<open>True\<close> first; a
  \<open>TruthTable\<close> has the two rows of its single variable.
\<close>

definition example_rows :: "(nat, bool list) dict" where
  "example_rows =
     [(0, [True, True]), (1, [True, False]), (2, [False, True]), (3, [False, False])]"

fun example_holds :: "string \<Rightarrow> bool list \<Rightarrow> bool" where
  "example_holds text [vp, vq] = (if text = ''p'' then vp else vq)"
| "example_holds text row = False"

definition example_accepts :: "string \<Rightarrow> bool" where
  "example_accepts text = (text = ''p'' \<or> text = ''q'')"

definition example_interpreter :: "(string, string list, bool list, bool list) interpreter" where
  "example_interpreter =
     \<lparr> parse_expression =
         (\<lambda>text. if example_accepts text then Some (PropositionalSymbol text) else None),
       TruthTable = (\<lambda>text. if example_accepts text then Some text else None),
       get_formula_valuations = (\<lambda>t. Some [(0, ([True], True)), (1, ([False], False))]),
       TruthTable_str_representation = (\<lambda>t. Some t),
       SetTruthTable = (\<lambda>texts. if list_all example_accepts texts then Some texts else None),
       get_formula_models =
         (\<lambda>s text. Some (filter (\<lambda>(i, row). example_holds text row) example_rows)),
       get_formulas_set_models =
         (\<lambda>s formulas.
            Some (filter (\<lambda>(i, row). list_all (\<lambda>(text, f). example_holds text row) formulas)
                    example_rows)),
       SetTruthTable_str_representation = (\<lambda>s. Some (concat s)) \<rparr>"

section \<open>Properties of the syntax\<close>

lemma subformulas_Cons: "\<exists>rest. subformulas e = e # rest"
  by (cases e) simp_all

lemma hd_subformulas: "hd (subformulas e) = e"
  using subformulas_Cons [of e] by auto

lemma length_subformulas: "length (subformulas e) = nodes e"
  by (induction e) simp_all

lemma count_self_subformulas: "1 \<le> count_list (subformulas e) e"
  using subformulas_Cons [of e] by auto

text \<open>
  C6. The five operators carry the metadata the specification fixes: negation is unary,
  precedence 6, right-associative; conjunction \<open>&\<close>, disjunction \<open>|\<close>, implication \<open>->\<close>
  and bi-implication \<open><->\<close> are binary, left-associative, with precedences 5, 4, 3, 2.
\<close>

theorem operator_metadata:
  "arity (Unary Negation) = 1 \<and> precendence (Unary Negation) = 6
     \<and> associativity (Unary Negation) = RIGHT \<and> SYMBOL (Unary Negation) = ''-''
   \<and> arity (Binary Conjunction) = 2 \<and> precendence (Binary Conjunction) = 5
     \<and> associativity (Binary Conjunction) = LEFT \<and> SYMBOL (Binary Conjunction) = ''&''
   \<and> arity (Binary Disjunction) = 2 \<and> precendence (Binary Disjunction) = 4
     \<and> associativity (Binary Disjunction) = LEFT \<and> SYMBOL (Binary Disjunction) = ''|''
   \<and> arity (Binary Implication) = 2 \<and> precendence (Binary Implication) = 3
     \<and> associativity (Binary Implication) = LEFT \<and> SYMBOL (Binary Implication) = ''->''
   \<and> arity (Binary BiImplication) = 2 \<and> precendence (Binary BiImplication) = 2
     \<and> associativity (Binary BiImplication) = LEFT
     \<and> SYMBOL (Binary BiImplication) = ''<->''
   \<and> LEFT \<noteq> RIGHT"
  by (simp add: LEFT_def RIGHT_def)

text \<open>
  C7. \<open>subformulas\<close> lists the tree in pre-order: the node itself, then the subformulas of
  each argument from first to last; a variable yields the one-element list of itself;
  duplicates are kept (a node with the same argument twice lists that argument at least
  twice).
\<close>

theorem subformulas_preorder:
  "subformulas e = e # concat (map subformulas (args e))
   \<and> subformulas (PropositionalSymbol v) = [PropositionalSymbol v]
   \<and> subformulas (UnaryOperator u x) = UnaryOperator u x # subformulas x
   \<and> subformulas (BinaryOperator b x y)
       = BinaryOperator b x y # subformulas x @ subformulas y
   \<and> 2 \<le> count_list (subformulas (BinaryOperator b x x)) x"
proof -
  have "subformulas e = e # concat (map subformulas (args e))"
    by (cases e) simp_all
  moreover have "2 \<le> count_list (subformulas (BinaryOperator b x x)) x"
    using count_self_subformulas [of x] by simp
  ultimately show ?thesis by simp
qed

text \<open>
  C10. For every expression whose arguments are set, \<open>subformulas\<close> returns a non-empty
  list whose first element is the expression itself, and whose length is the number of
  nodes of the tree, at least 1.
\<close>

theorem subformulas_nonempty_head_length:
  "subformulas e \<noteq> [] \<and> hd (subformulas e) = e
   \<and> length (subformulas e) = nodes e \<and> 1 \<le> length (subformulas e)"
proof -
  obtain rest where r: "subformulas e = e # rest"
    using subformulas_Cons by blast
  then have "subformulas e \<noteq> []" and "1 \<le> length (subformulas e)"
    by simp_all
  then show ?thesis
    by (simp add: hd_subformulas length_subformulas)
qed

lemma no_parenthesis_spec_bare: "no_parenthesis p c = spec_bare p c"
  by (cases c) (simp_all add: no_parenthesis_def spec_bare_def)

text \<open>
  C1, as the code has it. At a binary operator node a child is rendered bare exactly when
  it is a propositional variable or an operator whose precedence is greater than or equal
  to the parent's, and in parentheses otherwise. At a unary (negation) node the child is
  rendered bare exactly when it is a propositional variable, and in parentheses
  otherwise: \<open>Not(Not(p))\<close> renders as \<open>-(-p)\<close>.
\<close>

theorem str_representation_rule:
  "str_representation (BinaryOperator b x y)
     = spec_child (Binary b) x (str_representation x) @ SYMBOL (Binary b)
         @ spec_child (Binary b) y (str_representation y)
   \<and> str_representation (UnaryOperator u x)
     = SYMBOL (Unary u)
         @ (if is_a_PropositionalSymbol x then str_representation x
            else ''('' @ str_representation x @ '')'')
   \<and> str_representation
        (UnaryOperator Negation (UnaryOperator Negation (PropositionalSymbol ''p'')))
     = ''-(-p)''"
  by (simp add: no_parenthesis_spec_bare spec_child_def)

text \<open>
  The claim as it was stated fails at \<open>Not(Not(p))\<close>: the inner negation is an operator of
  precedence 6, not below its parent's, so the stated rule renders \<open>--p\<close>; the code
  renders \<open>-(-p)\<close>.
\<close>

theorem double_negation_in_parentheses:
  "spec_bare (Unary Negation) (UnaryOperator Negation (PropositionalSymbol ''p''))
   \<and> spec_render
        (UnaryOperator Negation (UnaryOperator Negation (PropositionalSymbol ''p'')))
     = ''--p''
   \<and> str_representation
        (UnaryOperator Negation (UnaryOperator Negation (PropositionalSymbol ''p'')))
     = ''-(-p)''
   \<and> str_representation
        (UnaryOperator Negation (UnaryOperator Negation (PropositionalSymbol ''p'')))
     \<noteq> ''--p''"
  by (simp add: spec_bare_def spec_child_def)

section \<open>Properties of the operations\<close>


lemma no_false_row_iff:
  "no_false_row vals \<longleftrightarrow> False \<notin> set (map (\<lambda>(line, valuation). snd valuation) vals)"
  by (induction vals rule: no_false_row.induct) auto


lemma format_result_verdict: "format_result a t = format_result b t \<longleftrightarrow> a = b"
  by (simp add: format_result_def)

text \<open>
  C2. \<open>check_status\<close> returns \<open>TAUTOLOGIA\<close> exactly when some value is true and none is
  false, \<open>CONTRADICAO\<close> exactly when some value is false and none is true, and
  \<open>CONTINGENCIA\<close> in every other case, the empty list among them.
\<close>

theorem check_status_verdicts:
  "(check_status vs = ''TAUTOLOGIA'' \<longleftrightarrow> True \<in> set vs \<and> False \<notin> set vs)
   \<and> (check_status vs = ''CONTRADICAO'' \<longleftrightarrow> False \<in> set vs \<and> True \<notin> set vs)
   \<and> (check_status vs = ''CONTINGENCIA'' \<longleftrightarrow>
        \<not> (True \<in> set vs \<and> False \<notin> set vs) \<and> \<not> (False \<in> set vs \<and> True \<notin> set vs))
   \<and> check_status [] = ''CONTINGENCIA''"
  by (simp add: check_status_def Let_def)





text \<open>
  C5. From the premise list that is exactly one empty string, when the interpreter's
  calls return, the verdict is \<open>SIM\<close> exactly when no row of the formula's own table is
  false, and \<open>NAO\<close> otherwise; when that table has a row, the verdict is \<open>SIM\<close> exactly
  when \<open>SemanticStatus.perform\<close> gives \<open>TAUTOLOGIA\<close> for the same formula.
\<close>

theorem consequence_of_empty_set:
  assumes "TruthTable I formula = Some truth_table"
    and "get_formula_valuations I truth_table = Some valuations"
    and "TruthTable_str_representation I truth_table = Some table"
  shows "(LogicConsequence_perform I [''''] formula = Some (format_result ''SIM'' table)
            \<longleftrightarrow> False \<notin> set (map (\<lambda>(line, valuation). snd valuation) valuations))
         \<and> (LogicConsequence_perform I [''''] formula = Some (format_result ''NAO'' table)
            \<longleftrightarrow> False \<in> set (map (\<lambda>(line, valuation). snd valuation) valuations))
         \<and> (valuations \<noteq> [] \<longrightarrow>
             (LogicConsequence_perform I [''''] formula = Some (format_result ''SIM'' table)
              \<longleftrightarrow> SemanticStatus_perform I formula
                    = Some (format_result ''TAUTOLOGIA'' table)))"
proof -
  define vs where "vs = map (\<lambda>(line, valuation). snd valuation) valuations"
  have lc0: "LogicConsequence_perform I [''''] formula
              = Some (format_result (if no_false_row valuations then ''SIM'' else ''NAO'') table)"
    using assms
    by (simp add: LogicConsequence_perform_def is_logic_consequence_of_empty_set_def Let_def)
  have lc: "LogicConsequence_perform I [''''] formula
              = Some (format_result (if False \<notin> set vs then ''SIM'' else ''NAO'') table)"
    unfolding lc0 no_false_row_iff vs_def ..
  have ss: "SemanticStatus_perform I formula = Some (format_result (check_status vs) table)"
    using assms by (simp add: SemanticStatus_perform_def Let_def vs_def)
  have taut: "check_status vs = ''TAUTOLOGIA'' \<longleftrightarrow> False \<notin> set vs" if ne: "vs \<noteq> []"
  proof (cases "False \<in> set vs")
    case True
    then show ?thesis by (simp add: check_status_def Let_def)
  next
    case False
    from ne obtain v where v: "v \<in> set vs" by (cases vs) auto
    with False have "v = True" by (cases v) auto
    with v False show ?thesis by (simp add: check_status_def Let_def)
  qed
  have a: "LogicConsequence_perform I [''''] formula = Some (format_result ''SIM'' table)
            \<longleftrightarrow> False \<notin> set vs"
    unfolding lc by (cases "False \<in> set vs") (simp_all add: format_result_def)
  have b: "LogicConsequence_perform I [''''] formula = Some (format_result ''NAO'' table)
            \<longleftrightarrow> False \<in> set vs"
    unfolding lc by (cases "False \<in> set vs") (simp_all add: format_result_def)
  have c: "LogicConsequence_perform I [''''] formula = Some (format_result ''SIM'' table)
              \<longleftrightarrow> SemanticStatus_perform I formula
                    = Some (format_result ''TAUTOLOGIA'' table)" if "valuations \<noteq> []"
  proof -
    from that have "vs \<noteq> []" by (simp add: vs_def)
    from taut [OF this] show ?thesis
      unfolding a ss by (simp add: format_result_verdict)
  qed
  from a b c show ?thesis unfolding vs_def by blast
qed

theorem consequence_of_empty_set_witness:
  "LogicConsequence_perform example_interpreter [''''] ''p'' = Some ''[NAO, [p]]''
   \<and> LogicConsequence_perform example_interpreter [''''] ''p'' \<noteq> Some ''[SIM, [p]]''
   \<and> SemanticStatus_perform example_interpreter ''p'' \<noteq> Some ''[TAUTOLOGIA, [p]]''"
proof -
  have t: "TruthTable example_interpreter ''p'' = Some ''p''"
    and v: "get_formula_valuations example_interpreter ''p''
              = Some [(0, ([True], True)), (1, ([False], False))]"
    and s: "TruthTable_str_representation example_interpreter ''p'' = Some ''p''"
    by (simp_all add: example_interpreter_def example_accepts_def)
  note w = consequence_of_empty_set [OF t v s]
  have nao: "LogicConsequence_perform example_interpreter [''''] ''p''
               = Some (format_result ''NAO'' ''p'')"
    using w [THEN conjunct2, THEN conjunct1] by simp
  have iff: "(LogicConsequence_perform example_interpreter [''''] ''p''
                = Some (format_result ''SIM'' ''p''))
             = (SemanticStatus_perform example_interpreter ''p''
                = Some (format_result ''TAUTOLOGIA'' ''p''))"
    using w [THEN conjunct2, THEN conjunct2] by simp
  from nao have sim: "LogicConsequence_perform example_interpreter [''''] ''p''
                 \<noteq> Some (format_result ''SIM'' ''p'')"
    by (simp add: format_result_def)
  with iff have "SemanticStatus_perform example_interpreter ''p''
                   \<noteq> Some (format_result ''TAUTOLOGIA'' ''p'')"
    by blast
  with nao sim show ?thesis by (simp add: format_result_def)
qed

section \<open>Properties of the recognizers\<close>


lemma nat_range_cases:
  "lo \<le> (n::nat) \<Longrightarrow> n \<le> hi \<Longrightarrow> n \<in> set [lo..<Suc hi]"
  by auto

lemma lowercase_letter_range: "in_item c (Range CHR ''a'' CHR ''z'') = lowercase_letter c"
proof
  assume "lowercase_letter c"
  then show "in_item c (Range CHR ''a'' CHR ''z'')"
    by (auto simp add: lowercase_letter_def)
next
  define n where "n = (of_char c :: nat)"
  assume "in_item c (Range CHR ''a'' CHR ''z'')"
  then have "97 \<le> n" and "n \<le> 122" by (simp_all add: n_def)
  then have "n \<in> set [97..<Suc 122]" by (rule nat_range_cases)
  then have "\<exists>d \<in> set ''abcdefghijklmnopqrstuvwxyz''. of_char d = n"
    by (auto simp add: upt_rec)
  then obtain d where "d \<in> set ''abcdefghijklmnopqrstuvwxyz''" and "of_char d = (of_char c :: nat)"
    unfolding n_def by blast
  then show "lowercase_letter c"
    unfolding lowercase_letter_def by (simp only: of_char_eq_iff)
qed

lemma ascii_digit_range: "in_item c (Range CHR ''0'' CHR ''9'') = ascii_digit c"
proof
  assume "ascii_digit c"
  then show "in_item c (Range CHR ''0'' CHR ''9'')"
    by (auto simp add: ascii_digit_def)
next
  define n where "n = (of_char c :: nat)"
  assume "in_item c (Range CHR ''0'' CHR ''9'')"
  then have "48 \<le> n" and "n \<le> 57" by (simp_all add: n_def)
  then have "n \<in> set [48..<Suc 57]" by (rule nat_range_cases)
  then have "\<exists>d \<in> set ''0123456789''. of_char d = n"
    by (auto simp add: upt_rec)
  then obtain d where "d \<in> set ''0123456789''" and "of_char d = (of_char c :: nat)"
    unfolding n_def by blast
  then show "ascii_digit c"
    unfolding ascii_digit_def by (simp only: of_char_eq_iff)
qed



lemma run_class:
  "run (CharClass items) (n, s) =
     (case s of [] \<Rightarrow> [] | c # rest \<Rightarrow> if list_ex (in_item c) items then [(Suc n, rest)] else [])"
  by (cases s) simp_all

lemma run_star_class_Nil: "run (Star (CharClass items)) (n, []) = [(n, [])]"
  by simp

lemma run_star_class_Cons:
  "run (Star (CharClass items)) (n, c # rest) =
     (if list_ex (in_item c) items then run (Star (CharClass items)) (Suc n, rest) else [])
       @ [(n, c # rest)]"
  by (subst run.simps(4)) (simp del: run.simps(4))

lemma set_run_star_class:
  "set (run (Star (CharClass items)) (n, s)) =
     {(n + length u, t) | u t. s = u @ t \<and> list_all (\<lambda>c. list_ex (in_item c) items) u}"
proof (induction s arbitrary: n)
  case Nil
  show ?case unfolding run_star_class_Nil by auto
next
  case (Cons c rest)
  show ?case
  proof (cases "list_ex (in_item c) items")
    case True
    have "set (run (Star (CharClass items)) (n, c # rest))
            = set (run (Star (CharClass items)) (Suc n, rest)) \<union> {(n, c # rest)}"
      unfolding run_star_class_Cons using True by (simp del: run.simps)
    also have "\<dots> = {(Suc n + length u, t) | u t.
                        rest = u @ t \<and> list_all (\<lambda>c. list_ex (in_item c) items) u}
                    \<union> {(n, c # rest)}"
      unfolding Cons.IH ..
    also have "\<dots> = {(n + length u, t) | u t.
                        c # rest = u @ t \<and> list_all (\<lambda>c. list_ex (in_item c) items) u}"
      (is "?L = ?R")
    proof (intro equalityI subsetI)
      fix p assume "p \<in> ?L"
      then consider u t where "p = (Suc n + length u, t)" "rest = u @ t"
          "list_all (\<lambda>c. list_ex (in_item c) items) u"
        | "p = (n, c # rest)" by blast
      then show "p \<in> ?R"
      proof cases
        case 1
        then have "p = (n + length (c # u), t)" "c # rest = (c # u) @ t"
          "list_all (\<lambda>c. list_ex (in_item c) items) (c # u)"
          using True by simp_all
        then show ?thesis by blast
      next
        case 2
        then have "p = (n + length ([]::string), c # rest)" "c # rest = [] @ c # rest"
          "list_all (\<lambda>c. list_ex (in_item c) items) []"
          by simp_all
        then show ?thesis by blast
      qed
    next
      fix p assume "p \<in> ?R"
      then obtain u t where p: "p = (n + length u, t)" "c # rest = u @ t"
          "list_all (\<lambda>c. list_ex (in_item c) items) u" by blast
      show "p \<in> ?L"
      proof (cases u)
        case Nil
        with p show ?thesis by simp
      next
        case (Cons d u')
        with p have "p = (Suc n + length u', t)" "rest = u' @ t"
          "list_all (\<lambda>c. list_ex (in_item c) items) u'" by simp_all
        then show ?thesis by blast
      qed
    qed
    finally show ?thesis .
  next
    case False
    have "set (run (Star (CharClass items)) (n, c # rest)) = {(n, c # rest)}"
      unfolding run_star_class_Cons using False by (simp del: run.simps)
    also have "\<dots> = {(n + length u, t) | u t.
                        c # rest = u @ t \<and> list_all (\<lambda>c. list_ex (in_item c) items) u}"
      (is "?L = ?R")
    proof (intro equalityI subsetI)
      fix p assume "p \<in> ?L"
      then have "p = (n + length ([]::string), c # rest)" "c # rest = [] @ c # rest"
          "list_all (\<lambda>c. list_ex (in_item c) items) []"
        by simp_all
      then show "p \<in> ?R" by blast
    next
      fix p assume "p \<in> ?R"
      then obtain u t where p: "p = (n + length u, t)" "c # rest = u @ t"
          "list_all (\<lambda>c. list_ex (in_item c) items) u" by blast
      show "p \<in> ?L"
      proof (cases u)
        case Nil
        with p show ?thesis by simp
      next
        case (Cons d u')
        with p False show ?thesis by simp
      qed
    qed
    finally show ?thesis .
  qed
qed


lemma evaluate_accepts:
  "evaluate P s \<noteq> None \<longleftrightarrow>
     (\<exists>p \<in> set (run P (0, s)). snd p = [] \<or> snd p = [CHR 0x0A])"
proof -
  have run: "run (Concat Caret (Concat P Dollar)) (0, s)
               = concat (map (run Dollar) (run P (0, s)))"
    by simp
  have dollar: "set (run Dollar p) = (if snd p = [] \<or> snd p = [CHR 0x0A] then {p} else {})" for p
    by (cases p) simp
  have "evaluate P s \<noteq> None \<longleftrightarrow> run (Concat Caret (Concat P Dollar)) (0, s) \<noteq> []"
    unfolding evaluate_def re_match_def by (simp del: run.simps split: list.splits)
  also have "\<dots> \<longleftrightarrow> set (concat (map (run Dollar) (run P (0, s)))) \<noteq> {}"
    unfolding run by (simp only: set_empty)
  also have "\<dots> \<longleftrightarrow> (\<exists>p \<in> set (run P (0, s)). snd p = [] \<or> snd p = [CHR 0x0A])"
    by (auto simp add: dollar simp del: run.simps split: if_splits)
  finally show ?thesis .
qed



lemma run_Repeat_one: "run (Repeat r 1) p = run r p"
proof -
  have zero: "run (Repeat r 0) = (\<lambda>q. [q])"
    by (rule ext) (simp only: run.simps(5))
  have "run (Repeat r (Suc 0)) p = concat (map (\<lambda>q. [q]) (run r p))"
    by (simp only: run.simps(6) zero)
  also have "\<dots> = run r p"
    by (induction "run r p") (simp_all del: run.simps)
  finally show ?thesis by (simp only: One_nat_def)
qed

lemma set_run_Concat: "set (run (Concat r1 r2) p) = (\<Union>q \<in> set (run r1 p). set (run r2 q))"
  by (simp only: run.simps(3) set_concat set_map image_image)

lemma set_run_PropositionalSymbol:
  "set (run PropositionalSymbol_pattern (0, s)) =
     {(Suc (length u), t) | c u t.
        s = c # u @ t \<and> lowercase_letter c \<and> list_all ascii_digit u}"
  (is "?L = ?R")
proof -
  let ?letter = "CharClass [Range CHR ''a'' CHR ''z'']"
  let ?digit = "CharClass [Range CHR ''0'' CHR ''9'']"
  have first: "set (run ?letter (0, s))
                 = {(Suc 0, rest) | c rest. s = c # rest \<and> lowercase_letter c}"
    by (cases s) (auto simp add: lowercase_letter_range simp del: in_item.simps run.simps(4))
  have digits: "list_all (\<lambda>c. list_ex (in_item c) [Range CHR ''0'' CHR ''9'']) u
                  = list_all ascii_digit u" for u
    by (simp add: ascii_digit_range del: in_item.simps run.simps)
  have star: "set (run (Star ?digit) (n, rest))
                = {(n + length u, t) | u t. rest = u @ t \<and> list_all ascii_digit u}" for n rest
    unfolding set_run_star_class digits ..
  have "?L = (\<Union>q \<in> set (run ?letter (0, s)). set (run (Star ?digit) q))"
    unfolding PropositionalSymbol_pattern_def run.simps(7) set_run_Concat run_Repeat_one ..
  also have "\<dots> = (\<Union>q \<in> {(Suc 0, rest) | c rest. s = c # rest \<and> lowercase_letter c}.
                      set (run (Star ?digit) q))"
    unfolding first ..
  also have "\<dots> = ?R"
  proof (intro equalityI subsetI)
    fix p
    assume "p \<in> (\<Union>q \<in> {(Suc 0, rest) | c rest. s = c # rest \<and> lowercase_letter c}.
                      set (run (Star ?digit) q))"
    then obtain c rest where s: "s = c # rest" and c: "lowercase_letter c"
      and "p \<in> set (run (Star ?digit) (Suc 0, rest))" by blast
    then obtain u t where "p = (Suc 0 + length u, t)" "rest = u @ t" "list_all ascii_digit u"
      unfolding star by blast
    with s c have "p = (Suc (length u), t)" "s = c # u @ t" "lowercase_letter c"
      "list_all ascii_digit u" by simp_all
    then show "p \<in> ?R" by blast
  next
    fix p
    assume "p \<in> ?R"
    then obtain c u t where p: "p = (Suc (length u), t)" and s: "s = c # u @ t"
      and c: "lowercase_letter c" and u: "list_all ascii_digit u" by blast
    from p u have "p \<in> set (run (Star ?digit) (Suc 0, u @ t))"
      unfolding star by auto
    moreover from s c have "(Suc 0, u @ t) \<in> {(Suc 0, rest) | c rest. s = c # rest \<and> lowercase_letter c}"
      by blast
    ultimately show "p \<in> (\<Union>q \<in> {(Suc 0, rest) | c rest. s = c # rest \<and> lowercase_letter c}.
                      set (run (Star ?digit) q))"
      by blast
  qed
  finally show ?thesis .
qed

text \<open>
  The strings the variable recognizer accepts: the variable tokens, and the variable
  tokens followed by one newline.
\<close>

lemma PropositionalSymbol_evaluate_accepts:
  "evaluate PropositionalSymbol_pattern s \<noteq> None \<longleftrightarrow>
     variable_token s \<or> (\<exists>t. s = t @ [CHR 0x0A] \<and> variable_token t)"
proof -
  have "evaluate PropositionalSymbol_pattern s \<noteq> None \<longleftrightarrow>
          (\<exists>c u t. s = c # u @ t \<and> lowercase_letter c \<and> list_all ascii_digit u
                    \<and> (t = [] \<or> t = [CHR 0x0A]))"
    unfolding evaluate_accepts set_run_PropositionalSymbol
  proof
    assume "\<exists>p\<in>{(Suc (length u), t) | c u t.
                 s = c # u @ t \<and> lowercase_letter c \<and> list_all ascii_digit u}.
              snd p = [] \<or> snd p = [CHR 0x0A]"
    then obtain p c u t where "p = (Suc (length u), t)" "s = c # u @ t" "lowercase_letter c"
      "list_all ascii_digit u" "snd p = [] \<or> snd p = [CHR 0x0A]" by blast
    then have "s = c # u @ t \<and> lowercase_letter c \<and> list_all ascii_digit u
                 \<and> (t = [] \<or> t = [CHR 0x0A])" by simp
    then show "\<exists>c u t. s = c # u @ t \<and> lowercase_letter c \<and> list_all ascii_digit u
                 \<and> (t = [] \<or> t = [CHR 0x0A])" by blast
  next
    assume "\<exists>c u t. s = c # u @ t \<and> lowercase_letter c \<and> list_all ascii_digit u
                 \<and> (t = [] \<or> t = [CHR 0x0A])"
    then obtain c u t where h: "s = c # u @ t" "lowercase_letter c" "list_all ascii_digit u"
      and t: "t = [] \<or> t = [CHR 0x0A]" by blast
    from h have "(Suc (length u), t) \<in> {(Suc (length u), t) | c u t.
                 s = c # u @ t \<and> lowercase_letter c \<and> list_all ascii_digit u}" by blast
    moreover from t have "snd (Suc (length u), t) = [] \<or> snd (Suc (length u), t) = [CHR 0x0A]"
      by simp
    ultimately show "\<exists>p\<in>{(Suc (length u), t) | c u t.
                 s = c # u @ t \<and> lowercase_letter c \<and> list_all ascii_digit u}.
              snd p = [] \<or> snd p = [CHR 0x0A]" by blast
  qed
  also have "\<dots> \<longleftrightarrow> variable_token s \<or> (\<exists>t. s = t @ [CHR 0x0A] \<and> variable_token t)"
    (is "?L \<longleftrightarrow> ?R")
  proof
    assume ?L
    then obtain c u t where s: "s = c # u @ t" and ok: "lowercase_letter c" "list_all ascii_digit u"
      and t: "t = [] \<or> t = [CHR 0x0A]" by blast
    from ok have v: "variable_token (c # u)" by (simp add: variable_token_def)
    from t show ?R
    proof
      assume "t = []"
      with s v show ?R by simp
    next
      assume "t = [CHR 0x0A]"
      with s have "s = (c # u) @ [CHR 0x0A]" by simp
      with v show ?R by blast
    qed
  next
    assume ?R
    then show ?L
    proof
      assume "variable_token s"
      then obtain c ds where "s = c # ds @ []" "lowercase_letter c" "list_all ascii_digit ds"
        by (cases s) (simp_all add: variable_token_def)
      then show ?L by blast
    next
      assume "\<exists>t. s = t @ [CHR 0x0A] \<and> variable_token t"
      then obtain t where s: "s = t @ [CHR 0x0A]" and "variable_token t" by blast
      then obtain c ds where "t = c # ds" "lowercase_letter c" "list_all ascii_digit ds"
        by (cases t) (simp_all add: variable_token_def)
      with s have "s = c # ds @ [CHR 0x0A]" "lowercase_letter c" "list_all ascii_digit ds"
        by simp_all
      then show ?L by blast
    qed
  qed
  finally show ?thesis .
qed

text \<open>
  C9. \<open>Symbol.evaluate\<close> accepts the empty string: the pattern is a star over the
  accepted character class, and the match of \<open>^...$\<close> on \<open>""\<close> succeeds with the empty
  text.
\<close>

theorem Symbol_evaluate_empty: "evaluate Symbol_pattern '''' = Some ''''"
  by (simp add: evaluate_def Symbol_pattern_def re_match_def)

text \<open>
  C8. The variable recognizer is meant to accept exactly one lowercase letter followed by
  digits. At the string \<open>p\<close> followed by a newline, which is not such a token, it returns
  a match, on the prefix \<open>p\<close>: \<open>$\<close> also holds just before a final newline.
\<close>

theorem PropositionalSymbol_evaluate_newline:
  "evaluate PropositionalSymbol_pattern (''p'' @ [CHR 0x0A]) = Some ''p''
   \<and> \<not> variable_token (''p'' @ [CHR 0x0A])"
  by (simp add: evaluate_def PropositionalSymbol_pattern_def re_match_def
      variable_token_def ascii_digit_def)

end
